theory Spec2Isabelle
  imports Main
begin

section \<open>SIMBAD\_utils.py: the SIMBAD client\<close>

text \<open>
  A shallow embedding of the class \<open>Client\<close> of \<open>SIMBAD_utils.py\<close> (Python 2): its two
  public methods \<open>doPositionQuery\<close> and \<open>doObjectQuery\<close>, and the private methods
  \<open>__setscriptheader\<close> and \<open>__doQuery\<close>. Strings are lists of 8-bit characters. The
  response text is Unicode in the source; the model has the code points below 256. The
  instance is a record that every method takes and returns; \<open>sys.stderr\<close> and the HTTP
  requests that were issued are a second record, the world. An exception is a value of
  the type \<open>exception\<close>, returned together with the instance as the exception left it.
  The two timing attributes \<open>stime\<close> and \<open>duration\<close> hold floating-point clock readings
  and are left out: no other attribute depends on them.
\<close>

subsection \<open>Python strings\<close>

text \<open>\<open>sep.join(xs)\<close>\<close>

fun join :: "string \<Rightarrow> string list \<Rightarrow> string" where
  "join sep [] = []"
| "join sep [x] = x"
| "join sep (x # y # ys) = x @ sep @ join sep (y # ys)"

text \<open>\<open>s.split(c)\<close> for a separator of one character: never empty, \<open>''.split(c) == ['']\<close>.\<close>

fun split_on :: "char \<Rightarrow> string \<Rightarrow> string list" where
  "split_on c [] = [[]]"
| "split_on c (x # xs) =
     (if x = c then [] # split_on c xs
      else (let ps = split_on c xs in (x # hd ps) # tl ps))"

text \<open>The characters that \<open>\s\<close> takes as white space (the patterns are compiled
  without \<open>re.UNICODE\<close>): space, \<open>\t\<close>, \<open>\n\<close>, \<open>\r\<close>, \<open>\f\<close>, \<open>\v\<close>.\<close>

definition isspace :: "char \<Rightarrow> bool" where
  "isspace c \<longleftrightarrow> c \<in> set [CHR 0x20, CHR 0x09, CHR 0x0A, CHR 0x0D, CHR 0x0C, CHR 0x0B]"

definition isdigit :: "char \<Rightarrow> bool" where
  "isdigit c \<longleftrightarrow> c \<in> set ''0123456789''"

text \<open>\<open>s.split()\<close> is applied to the lines of \<open>r.text\<close>, a \<open>unicode\<close> string, and
  splits on every character that Unicode takes as white space. Of these the code points
  below 256 are the six above and \<open>0x1C\<close> to \<open>0x1F\<close>, \<open>0x85\<close>, \<open>0xA0\<close>; the model
  has no character above 255.\<close>

definition isspace_unicode :: "char \<Rightarrow> bool" where
  "isspace_unicode c \<longleftrightarrow>
     isspace c \<or> c \<in> set [CHR 0x1C, CHR 0x1D, CHR 0x1E, CHR 0x1F, CHR 0x85, CHR 0xA0]"

text \<open>\<open>s.split()\<close>: the maximal runs of characters that are not white space.
  The first argument is the run collected so far.\<close>

fun split_ws_from :: "string \<Rightarrow> string \<Rightarrow> string list" where
  "split_ws_from cur [] = (if cur = [] then [] else [cur])"
| "split_ws_from cur (c # cs) =
     (if isspace_unicode c
      then (if cur = [] then split_ws_from [] cs else cur # split_ws_from [] cs)
      else split_ws_from (cur @ [c]) cs)"

definition split_ws :: "string \<Rightarrow> string list" where
  "split_ws s = split_ws_from [] s"

text \<open>\<open>re.search(lit, s)\<close> for a pattern without special characters: is \<open>lit\<close> a
  substring of \<open>s\<close>?\<close>

fun startswith :: "string \<Rightarrow> string \<Rightarrow> bool" where
  "startswith s [] = True"
| "startswith [] (p # ps) = False"
| "startswith (c # cs) (p # ps) = (c = p \<and> startswith cs ps)"

fun contains :: "string \<Rightarrow> string \<Rightarrow> bool" where
  "contains lit [] = (lit = [])"
| "contains lit (c # cs) = (startswith (c # cs) lit \<or> contains lit cs)"

text \<open>\<open>int(s)\<close> on a string of decimal digits, and \<open>"%s" % n\<close> for a number
  \<open>n \<ge> 0\<close>.\<close>

definition digit_value :: "char \<Rightarrow> nat" where
  "digit_value c = of_char c - 48"

definition int_of_digits :: "string \<Rightarrow> nat" where
  "int_of_digits s = foldl (\<lambda>n c. 10 * n + digit_value c) 0 s"

definition digit_char :: "nat \<Rightarrow> char" where
  "digit_char d = char_of (48 + d)"

function str_of_nat :: "nat \<Rightarrow> string" where
  "str_of_nat n = (if n < 10 then [digit_char n] else str_of_nat (n div 10) @ [digit_char (n mod 10)])"
  by pat_completeness auto
termination
  by (relation "measure id") auto

declare str_of_nat.simps [simp del]

subsection \<open>The regular expressions of \<open>doPositionQuery\<close>\<close>

text \<open>
  The two patterns are built from character classes, \<open>+\<close> and \<open>*\<close> on a class, groups,
  concatenation and one optional group. \<open>rematch r s g\<close> lists, in the order in which the
  backtracking matcher of \<open>re\<close> tries them, the ways \<open>r\<close> matches a prefix of \<open>s\<close>: each is
  the rest of the input with the groups captured so far. A greedy repetition tries the
  longest run first; an optional part tries to match before it tries to be empty.
\<close>

datatype regex =
    Plus "char \<Rightarrow> bool"
  | Star "char \<Rightarrow> bool"
  | Sym "char \<Rightarrow> bool"
  | Group nat regex
  | Opt regex
  | Cat regex regex

type_synonym groups = "nat \<Rightarrow> string option"

fun rematch :: "regex \<Rightarrow> string \<Rightarrow> groups \<Rightarrow> (string \<times> groups) list" where
  "rematch (Plus p) s g =
     map (\<lambda>k. (drop k s, g)) (rev [1 ..< Suc (length (takeWhile p s))])"
| "rematch (Star p) s g =
     map (\<lambda>k. (drop k s, g)) (rev [0 ..< Suc (length (takeWhile p s))])"
| "rematch (Sym p) s g =
     (case s of [] \<Rightarrow> [] | c # cs \<Rightarrow> if p c then [(cs, g)] else [])"
| "rematch (Group i r) s g =
     map (\<lambda>(rest, g'). (rest, g'(i \<mapsto> take (length s - length rest) s))) (rematch r s g)"
| "rematch (Opt r) s g = rematch r s g @ [(s, g)]"
| "rematch (Cat r1 r2) s g =
     concat (map (\<lambda>(rest, g'). rematch r2 rest g') (rematch r1 s g))"

text \<open>\<open>pat.search(s)\<close>: the first way to match at the leftmost position that has one;
  \<open>None\<close> when no position has one. The value is the match object's \<open>group\<close>.\<close>

fun search :: "regex \<Rightarrow> string \<Rightarrow> groups option" where
  "search r [] = (case rematch r [] (\<lambda>_. None) of [] \<Rightarrow> None | m # _ \<Rightarrow> Some (snd m))"
| "search r (c # cs) =
     (case rematch r (c # cs) (\<lambda>_. None) of [] \<Rightarrow> search r cs | m # _ \<Rightarrow> Some (snd m))"

text \<open>\<open>ppat = re.compile('([0-9\.\ ]+)\s+([\-\+][0-9\.\ ]+)')\<close>\<close>

definition radec_char :: "char \<Rightarrow> bool" where
  "radec_char c \<longleftrightarrow> isdigit c \<or> c = CHR ''.'' \<or> c = CHR '' ''"

definition sign_char :: "char \<Rightarrow> bool" where
  "sign_char c \<longleftrightarrow> c = CHR ''-'' \<or> c = CHR ''+''"

definition ppat :: regex where
  "ppat = Cat (Group 1 (Plus radec_char))
            (Cat (Plus isspace) (Group 2 (Cat (Sym sign_char) (Plus radec_char))))"

text \<open>\<open>rpat = re.compile('([0-9]+)\s+([0-9]+)\s*([0-9]+)?')\<close>\<close>

definition rpat :: regex where
  "rpat = Cat (Group 1 (Plus isdigit))
            (Cat (Plus isspace)
              (Cat (Group 2 (Plus isdigit))
                (Cat (Star isspace) (Opt (Group 3 (Plus isdigit))))))"

subsection \<open>The instance, the transport and the world\<close>

text \<open>The exceptions of the module (\<open>IncorrectInputError\<close> with the message it was raised
  with, if any), and the built-in ones that a method can let through.\<close>

datatype exception =
    NoQueryElementsError
  | IncorrectInputError "string option"
  | KeyError
  | TypeError
  | AttributeError

text \<open>\<open>type(e).__name__\<close>\<close>

fun class_name :: "exception \<Rightarrow> string" where
  "class_name NoQueryElementsError = ''NoQueryElementsError''"
| "class_name (IncorrectInputError msg) = ''IncorrectInputError''"
| "class_name KeyError = ''KeyError''"
| "class_name TypeError = ''TypeError''"
| "class_name AttributeError = ''AttributeError''"

text \<open>What the attribute \<open>result\<close> holds: \<open>''\<close> or the text of a response, the \<open>None\<close> of
  a bare \<open>return\<close>, or the list of identifiers.\<close>

datatype pyvalue = PyNone | PyStr string | PyList "string list"

text \<open>\<open>qType\<close> and \<open>ostring\<close> are not set by \<open>__init__\<close>: \<open>None\<close> is the missing attribute.\<close>

record client =
  debug :: int
  baseURL :: string
  proxees :: "(string \<times> string) list"
  elements :: "string list"
  pstring :: string
  radius :: string
  ra :: string
  dec :: string
  equinox :: string
  epoch :: string
  frame :: string
  frames :: "string list"
  error :: string
  preamble :: string
  object :: string
  result :: pyvalue
  script :: string
  qFormats :: "(string \<times> string) list"
  qType :: "string option"
  ostring :: "string option"

text \<open>\<open>requests.get(queryURL, params=params, proxies=self.proxees)\<close> is a parameter of the
  model: a function from the request to the response, of which the module reads
  \<open>status_code\<close>, \<open>text\<close> and \<open>url\<close>.\<close>

record request =
  req_url :: string
  req_params :: "(string \<times> string) list"
  req_proxies :: "(string \<times> string) list"

record response =
  status_code :: nat
  resp_text :: string
  resp_url :: string

type_synonym transport = "request \<Rightarrow> response"

record world =
  stderr :: "string list"
  requests :: "request list"

type_synonym outcome = "exception option \<times> client \<times> world"

definition nl :: string where
  "nl = [CHR 0x0A]"

definition def_baseURL :: string where
  "def_baseURL = ''http://simbad.harvard.edu''"

text \<open>\<open>Client(URL, proxy, debug)\<close>\<close>

definition init :: "string \<Rightarrow> string \<Rightarrow> int \<Rightarrow> client" where
  "init URL proxy dbg =
     \<lparr> debug = dbg,
       baseURL = (if URL \<noteq> [] then URL else def_baseURL),
       proxees = (if proxy \<noteq> [] then [(''http'', proxy)] else []),
       elements = [], pstring = [], radius = [], ra = [], dec = [], equinox = [],
       epoch = [], frame = [],
       frames = [''ICRS'', ''FK4'', ''FK5'', ''GAL'', ''SGAL'', ''ECL''],
       error = [],
       preamble = ''simbad/sim-script'',
       object = [], result = PyStr [], script = [],
       qFormats = [(''posquery'', ''%IDLIST(1)''), (''objquery'', ''%IDLIST(1)'')],
       qType = None, ostring = None \<rparr>"

subsection \<open>\<open>__setscriptheader\<close> and \<open>__doQuery\<close>\<close>

text \<open>The first line is appended before \<open>self.qFormats[self.qType]\<close> is looked up.\<close>

definition setscriptheader :: "client \<Rightarrow> exception option \<times> client" where
  "setscriptheader c =
     (let c1 = c\<lparr>elements := elements c @ [''output console=off error=off script=off'']\<rparr> in
      case qType c1 of
        None \<Rightarrow> (Some AttributeError, c1)
      | Some t \<Rightarrow>
          (case map_of (qFormats c1) t of
             None \<Rightarrow> (Some KeyError, c1)
           | Some format \<Rightarrow>
               (None, c1\<lparr>elements := elements c1 @
                   [''format obj '' @ [CHR 0x22] @ format @ [CHR 0x22],
                    ''result oid'',
                    ''echodata XXX'']\<rparr>)))"

text \<open>\<open>requests.codes.ok\<close> is 200. On another status the method writes to \<open>sys.stderr\<close>
  and returns nothing, which in Python is \<open>None\<close>.\<close>

definition doQuery :: "transport \<Rightarrow> client \<Rightarrow> world \<Rightarrow> pyvalue \<times> world" where
  "doQuery get c w =
     (let params = [(''submit'', ''submit script''), (''script'', script c)];
          queryURL = baseURL c @ ''/'' @ preamble c;
          rq = \<lparr> req_url = queryURL, req_params = params, req_proxies = proxees c \<rparr>;
          r = get rq;
          w1 = w\<lparr>requests := requests w @ [rq]\<rparr>
      in if status_code r \<noteq> 200
         then (PyNone, w1\<lparr>stderr := stderr w1 @ [''Error while querying SIMBAD. Aborting...'' @ nl]\<rparr>)
         else (PyStr (resp_text r),
               if debug c \<noteq> 0
               then w1\<lparr>stderr := stderr w1 @ [''Query URL: '' @ resp_url r @ nl]\<rparr>
               else w1))"

subsection \<open>Reading the response\<close>

text \<open>
  Lines 179 to 191 of \<open>doPositionQuery\<close>, which lines 230 to 242 of \<open>doObjectQuery\<close>
  repeat character for character. \<open>re.search(':error:', self.result)\<close> raises
  \<open>TypeError\<close> when \<open>self.result\<close> is not a string. The attribute \<open>error\<close> is assigned
  only when the marker is found; the test \<open>if not self.error\<close> reads whatever it holds.
\<close>

definition nonempty_lines :: "string \<Rightarrow> string list" where
  "nonempty_lines raw = filter (\<lambda>a. length a > 0 \<and> a \<noteq> ''XXX'') (split_on (CHR 0x0A) raw)"

text \<open>The message of lines 182 to 185: the lines that are neither empty nor \<open>XXX\<close>,
  without those that contain \<open>:::\<close>, joined by single spaces.\<close>

definition error_message :: "string \<Rightarrow> string" where
  "error_message raw = join '' '' (filter (\<lambda>a. \<not> contains '':::'' a) (nonempty_lines raw))"

definition read_response :: "client \<Rightarrow> world \<Rightarrow> outcome" where
  "read_response c w =
     (case result c of
        PyNone \<Rightarrow> (Some TypeError, c, w)
      | PyList xs \<Rightarrow> (Some TypeError, c, w)
      | PyStr raw \<Rightarrow>
          (let w1 = (if contains '':error:'' raw \<and> debug c \<noteq> 0
                     then w\<lparr>stderr := stderr w @ [''Returned result:'' @ nl @ raw @ nl]\<rparr>
                     else w);
               c1 = (if contains '':error:'' raw
                     then c\<lparr>error := error_message raw\<rparr>
                     else c)
           in if error c1 = []
              then (None,
                    c1\<lparr>result := PyList (map (\<lambda>c. c ! 1)
                                    (filter (\<lambda>b. length b = 2) (map split_ws (nonempty_lines raw))))\<rparr>,
                    w1)
              else (None, c1, w1)))"

text \<open>Lines 174 to 191 (and 225 to 242): join the elements, send, read the response.\<close>

definition send_script :: "transport \<Rightarrow> client \<Rightarrow> world \<Rightarrow> outcome" where
  "send_script get c w =
     (let c1 = c\<lparr>script := join nl (elements c)\<rparr>;
          (r, w1) = doQuery get c1 w
      in read_response (c1\<lparr>result := r\<rparr>) w1)"

subsection \<open>\<open>doPositionQuery\<close>\<close>

text \<open>\<open>m.group(i)\<close> of a match object. In both patterns the groups 1 and 2 take part
  in every match (lemmas \<open>search_ppat_groups\<close> and \<open>search_rpat_groups\<close> below), so the
  second case is never taken for them.\<close>

definition group :: "groups \<Rightarrow> nat \<Rightarrow> string" where
  "group m i = (case m i of Some s \<Rightarrow> s | None \<Rightarrow> [])"

text \<open>\<open>re.sub('[\'\"]', '', self.pstring)\<close>\<close>

definition strip_quotes :: "string \<Rightarrow> string" where
  "strip_quotes s = filter (\<lambda>ch. ch \<noteq> CHR 0x27 \<and> ch \<noteq> CHR 0x22) s"

text \<open>\<open>radec, rad = pos.split(':')\<close> unpacks a list of exactly two strings; on any other
  length it raises \<open>ValueError\<close>, and the handler takes the whole string as the position.\<close>

definition split_radius :: "string \<Rightarrow> string \<times> string" where
  "split_radius pos =
     (case split_on (CHR '':'') pos of
        [radec, rad] \<Rightarrow> (radec, rad)
      | _ \<Rightarrow> (pos, []))"

text \<open>Lines 126 to 134. \<open>int(rmat.group(3))\<close> raises \<open>TypeError\<close> when the third group
  did not take part; the handler then looks at the first group.\<close>

definition radius_of :: "string \<Rightarrow> string" where
  "radius_of rad =
     (case search rpat rad of
        None \<Rightarrow> rad
      | Some rmat \<Rightarrow>
          (case rmat 3 of
             Some g3 \<Rightarrow> group rmat 1 @ ''h'' @ group rmat 2 @ ''m'' @ str_of_nat (int_of_digits g3) @ ''s''
           | None \<Rightarrow>
               if int_of_digits (group rmat 1) > 0
               then group rmat 1 @ ''h'' @ group rmat 2 @ ''m''
               else group rmat 2 @ ''m''))"

text \<open>Lines 113 to 147, the body of \<open>if self.pstring:\<close>. Nothing is assigned to the
  instance before the \<open>raise\<close>.\<close>

definition parse_pstring :: "client \<Rightarrow> exception + client" where
  "parse_pstring c =
     (let pos = strip_quotes (pstring c);
          (radec, rad0) = split_radius pos;
          rad = radius_of rad0
      in case search ppat radec of
           None \<Rightarrow> Inl (IncorrectInputError (Some ''coordinate string could not be parsed''))
         | Some pmat \<Rightarrow>
             (let c1 = c\<lparr>ra := group pmat 1, dec := group pmat 2\<rparr>
              in Inr (if rad \<noteq> []
                      then (if CHR ''m'' \<in> set rad
                            then c1\<lparr>radius := rad\<rparr>
                            else c1\<lparr>radius := rad @ ''d''\<rparr>)
                      else c1)))"

text \<open>Lines 150 to 168, inside \<open>if self.ra and self.dec:\<close>.\<close>

definition coo_query :: "client \<Rightarrow> exception + string" where
  "coo_query c =
     (if hd (dec c) \<notin> set ''+-''
      then Inl (IncorrectInputError
                 (Some (''DEC must start with '' @ [CHR 0x27] @ ''+'' @ [CHR 0x27] @ '' or '' @
                        [CHR 0x27] @ ''-'' @ [CHR 0x27] @ ''!'')))
      else if radius c \<noteq> [] \<and> last (radius c) \<notin> set ''hmsd''
      then Inl (IncorrectInputError (Some ''radius is missing qualifier!''))
      else
        (let q0 = (if radius c \<noteq> []
                   then ''query coo '' @ ra c @ '' '' @ dec c @ '' radius='' @ radius c
                   else ''query coo '' @ ra c @ '' '' @ dec c);
             q1 = (if frame c \<noteq> [] \<and> frame c \<in> set (frames c)
                   then q0 @ '' frame '' @ frame c else q0);
             q2 = (if equinox c \<noteq> [] then q1 @ '' equi='' @ equinox c else q1);
             q3 = (if epoch c \<noteq> [] then q2 @ ''epoch='' @ epoch c else q2)
         in Inr q3))"

definition doPositionQuery :: "transport \<Rightarrow> client \<Rightarrow> world \<Rightarrow> outcome" where
  "doPositionQuery get c w =
     (let c1 = c\<lparr>qType := Some ''posquery'', script := [], elements := []\<rparr>;
          (e, c2) = (if length (elements c1) = 0 then setscriptheader c1 else (None, c1))
      in case e of
           Some x \<Rightarrow> (Some x, c2, w)
         | None \<Rightarrow>
             if length (elements c2) = 0 then (Some NoQueryElementsError, c2, w)
             else
               (case (if pstring c2 \<noteq> [] then parse_pstring c2 else Inr c2) of
                  Inl x \<Rightarrow> (Some x, c2, w)
                | Inr c3 \<Rightarrow>
                    if ra c3 \<noteq> [] \<and> dec c3 \<noteq> []
                    then (case coo_query c3 of
                            Inl x \<Rightarrow> (Some x, c3, w)
                          | Inr q \<Rightarrow> send_script get (c3\<lparr>elements := elements c3 @ [q]\<rparr>) w)
                    else (Some (IncorrectInputError None), c3\<lparr>result := PyStr []\<rparr>, w)))"

subsection \<open>\<open>doObjectQuery\<close>\<close>

text \<open>Reading \<open>self.ostring\<close> raises \<open>AttributeError\<close> when the caller never set it.\<close>

definition doObjectQuery :: "transport \<Rightarrow> client \<Rightarrow> world \<Rightarrow> outcome" where
  "doObjectQuery get c w =
     (let c1 = c\<lparr>qType := Some ''objquery'', script := [], elements := []\<rparr>;
          (e, c2) = (if length (elements c1) = 0 then setscriptheader c1 else (None, c1))
      in case e of
           Some x \<Rightarrow> (Some x, c2, w)
         | None \<Rightarrow>
             if length (elements c2) = 0 then (Some NoQueryElementsError, c2, w)
             else
               (case ostring c2 of
                  None \<Rightarrow> (Some AttributeError, c2, w)
                | Some os \<Rightarrow>
                    (let objects = (if os \<noteq> [] then split_on (CHR '','') os else [])
                     in if length objects > 0
                        then send_script get (c2\<lparr>elements := elements c2 @ [join nl objects]\<rparr>) w
                        else (Some (IncorrectInputError None), c2\<lparr>result := PyStr []\<rparr>, w))))"

subsection \<open>The success list in the words of the specification\<close>

text \<open>Drop the empty lines and the lines \<open>XXX\<close>, split each remaining line on white
  space, keep the lines of exactly two tokens, take the second token of each.\<close>

definition spec_identifiers :: "string \<Rightarrow> string list" where
  "spec_identifiers raw =
     (let kept = filter (\<lambda>l. l \<noteq> [] \<and> l \<noteq> ''XXX'') (split_on (CHR 0x0A) raw);
          two = filter (\<lambda>ts. length ts = 2) (map split_ws kept)
      in map (\<lambda>ts. hd (tl ts)) two)"

subsection \<open>Inputs for the examples\<close>

text \<open>A transport that answers every request with the same status and body, a world
  in which nothing has happened yet, and the header lines for an output format.\<close>

definition reply :: "nat \<Rightarrow> string \<Rightarrow> transport" where
  "reply st body rq = \<lparr> status_code = st, resp_text = body, resp_url = req_url rq \<rparr>"

definition quiet :: world where
  "quiet = \<lparr> stderr = [], requests = [] \<rparr>"

text \<open>The response \<open>"XXX\nobj1 2006070\nXXX"\<close>.\<close>

definition example_reply :: string where
  "example_reply = ''XXX'' @ nl @ ''obj1 2006070'' @ nl @ ''XXX''"

text \<open>A position query that the server answers with status 500.\<close>

definition failed_query :: outcome where
  "failed_query = doPositionQuery (reply 500 [])
     ((init [] [] 0)\<lparr>pstring := ''05 23 34.6 -69 45 22:0.16667''\<rparr>) quiet"

text \<open>Two object queries on one instance: the server reports an error for the first
  and answers the second with \<open>example_reply\<close>.\<close>

definition first_query :: outcome where
  "first_query = doObjectQuery (reply 200 (''::error:: bad syntax'' @ nl @ '':::detail:::''))
     ((init [] [] 0)\<lparr>ostring := Some ''M31''\<rparr>) quiet"

definition second_query :: outcome where
  "second_query = doObjectQuery (reply 200 example_reply)
     (fst (snd first_query)) (snd (snd first_query))"

text \<open>Two position queries on one instance: the first succeeds, the notation of the
  second cannot be parsed.\<close>

definition third_query :: outcome where
  "third_query = doPositionQuery (reply 200 example_reply)
     ((init [] [] 0)\<lparr>pstring := ''05 23 34.6 -69 45 22:0.16667''\<rparr>) quiet"

definition fourth_query :: outcome where
  "fourth_query = doPositionQuery (reply 200 example_reply)
     ((fst (snd third_query))\<lparr>pstring := ''M 31''\<rparr>) (snd (snd third_query))"

text \<open>An object query whose response carries the marker only on a line with \<open>:::\<close>.\<close>

definition marker_query :: outcome where
  "marker_query = doObjectQuery (reply 200 '':::error::: x'')
     ((init [] [] 0)\<lparr>ostring := Some ''M31''\<rparr>) quiet"

definition header_lines :: "string \<Rightarrow> string list" where
  "header_lines format =
     [''output console=off error=off script=off'',
      ''format obj '' @ [CHR 0x22] @ format @ [CHR 0x22],
      ''result oid'',
      ''echodata XXX'']"

section \<open>Properties\<close>

subsection \<open>Strings and patterns\<close>

lemma join_append_join:
  "ys \<noteq> [] \<Longrightarrow> join sep (xs @ [join sep ys]) = join sep (xs @ ys)"
proof (induction sep xs rule: join.induct)
  case (1 sep)
  then show ?case by simp
next
  case (2 sep x)
  then show ?case by (cases ys) simp_all
next
  case (3 sep x y zs)
  then show ?case by simp
qed

lemma split_on_nonempty: "split_on c s \<noteq> []"
  by (induction s) (simp_all add: Let_def)

lemma split_on_notin: "c \<notin> set s \<Longrightarrow> split_on c s = [s]"
  by (induction s) (auto simp: Let_def)

lemma split_on_append: "c \<notin> set a \<Longrightarrow> split_on c (a @ c # b) = a # split_on c b"
  by (induction a) (auto simp: Let_def)

lemma space_not_digit: "isspace ch \<Longrightarrow> \<not> isdigit ch"
  by (auto simp: isspace_def isdigit_def)

text \<open>The first way a greedy repetition matches is the whole run.\<close>

lemma rematch_Plus_first:
  assumes "takeWhile p s \<noteq> []"
  shows "\<exists>t. rematch (Plus p) s g = (dropWhile p s, g) # t"
proof -
  let ?n = "length (takeWhile p s)"
  have "0 < ?n" using assms by simp
  then have "[1 ..< Suc ?n] = [1 ..< ?n] @ [?n]" by (simp add: Suc_leI)
  then have "rev [1 ..< Suc ?n] = ?n # rev [1 ..< ?n]" by simp
  moreover have "drop ?n s = dropWhile p s" by (simp add: dropWhile_eq_drop)
  ultimately show ?thesis by simp
qed

lemma rematch_Group_first:
  "rematch r s g = (rest, g') # t \<Longrightarrow>
   \<exists>t'. rematch (Group i r) s g = (rest, g'(i \<mapsto> take (length s - length rest) s)) # t'"
  by simp

lemma rematch_Cat_first:
  "rematch r1 s g = (rest, g') # t \<Longrightarrow> rematch r2 rest g' = x # t2 \<Longrightarrow>
   \<exists>t'. rematch (Cat r1 r2) s g = x # t'"
  by simp

lemma search_first:
  "s \<noteq> [] \<Longrightarrow> rematch r s (\<lambda>_. None) = (rest, m) # t \<Longrightarrow> search r s = Some m"
  by (cases s) simp_all

text \<open>Groups 1 and 2 take part in every match of either pattern.\<close>

lemma rematch_keeps:
  "(rest, m) \<in> set (rematch r s g) \<Longrightarrow> g i \<noteq> None \<Longrightarrow> m i \<noteq> None"
proof (induction r arbitrary: s g rest m)
  case (Plus p)
  then show ?case by auto
next
  case (Star p)
  then show ?case by auto
next
  case (Sym p)
  then show ?case by (auto split: list.splits if_splits)
next
  case (Group j r)
  then show ?case by (auto split: if_splits)
next
  case (Opt r)
  then show ?case by auto
next
  case (Cat r1 r2)
  from Cat.prems(1) obtain s1 g1 where
    a: "(s1, g1) \<in> set (rematch r1 s g)" and b: "(rest, m) \<in> set (rematch r2 s1 g1)"
    by auto
  from Cat.IH(1)[OF a Cat.prems(2)] have "g1 i \<noteq> None" .
  from Cat.IH(2)[OF b this] show ?case .
qed

lemma rematch_Group_sets:
  "(rest, m) \<in> set (rematch (Group i r) s g) \<Longrightarrow> m i \<noteq> None"
  by auto

lemma rematch_Cat_elim:
  "(rest, m) \<in> set (rematch (Cat r1 r2) s g) \<Longrightarrow>
   \<exists>s1 g1. (s1, g1) \<in> set (rematch r1 s g) \<and> (rest, m) \<in> set (rematch r2 s1 g1)"
  by auto

lemma ppat_groups_set:
  assumes "(rest, m) \<in> set (rematch ppat s g)"
  shows "m 1 \<noteq> None \<and> m 2 \<noteq> None"
proof -
  let ?tail = "Cat (Plus isspace) (Group 2 (Cat (Sym sign_char) (Plus radec_char)))"
  from assms obtain s1 g1 where
    a: "(s1, g1) \<in> set (rematch (Group 1 (Plus radec_char)) s g)" and
    b: "(rest, m) \<in> set (rematch ?tail s1 g1)"
    unfolding ppat_def using rematch_Cat_elim by blast
  from b obtain s2 g2 where
    c: "(s2, g2) \<in> set (rematch (Plus isspace) s1 g1)" and
    d: "(rest, m) \<in> set (rematch (Group 2 (Cat (Sym sign_char) (Plus radec_char))) s2 g2)"
    using rematch_Cat_elim by blast
  have "g1 1 \<noteq> None" using a by (rule rematch_Group_sets)
  then have "m 1 \<noteq> None" using b by (rule rematch_keeps[rotated])
  moreover have "m 2 \<noteq> None" using d by (rule rematch_Group_sets)
  ultimately show ?thesis by simp
qed

lemma rpat_groups_set:
  assumes "(rest, m) \<in> set (rematch rpat s g)"
  shows "m 1 \<noteq> None \<and> m 2 \<noteq> None"
proof -
  let ?t3 = "Cat (Star isspace) (Opt (Group 3 (Plus isdigit)))"
  let ?t2 = "Cat (Group 2 (Plus isdigit)) ?t3"
  let ?t1 = "Cat (Plus isspace) ?t2"
  from assms obtain s1 g1 where
    a: "(s1, g1) \<in> set (rematch (Group 1 (Plus isdigit)) s g)" and
    b: "(rest, m) \<in> set (rematch ?t1 s1 g1)"
    unfolding rpat_def using rematch_Cat_elim by blast
  from b obtain s2 g2 where
    c: "(s2, g2) \<in> set (rematch (Plus isspace) s1 g1)" and
    d: "(rest, m) \<in> set (rematch ?t2 s2 g2)"
    using rematch_Cat_elim by blast
  from d obtain s3 g3 where
    e: "(s3, g3) \<in> set (rematch (Group 2 (Plus isdigit)) s2 g2)" and
    f: "(rest, m) \<in> set (rematch ?t3 s3 g3)"
    using rematch_Cat_elim by blast
  have "g1 1 \<noteq> None" using a by (rule rematch_Group_sets)
  then have "m 1 \<noteq> None" using b by (rule rematch_keeps[rotated])
  moreover have "g3 2 \<noteq> None" using e by (rule rematch_Group_sets)
  then have "m 2 \<noteq> None" using f by (rule rematch_keeps[rotated])
  ultimately show ?thesis by simp
qed

lemma search_in_rematch:
  "search r s = Some m \<Longrightarrow> \<exists>s' rest. (rest, m) \<in> set (rematch r s' (\<lambda>_. None))"
proof (induction s)
  case Nil
  then obtain x xs where "rematch r [] (\<lambda>_. None) = x # xs" and "m = snd x"
    by (auto split: list.splits)
  then have "(fst x, m) \<in> set (rematch r [] (\<lambda>_. None))" by simp
  then show ?case by blast
next
  case (Cons c cs)
  show ?case
  proof (cases "rematch r (c # cs) (\<lambda>_. None)")
    case Nil
    with Cons show ?thesis by simp
  next
    case (Cons x xs)
    with Cons.prems have "m = snd x" by simp
    then have "(fst x, m) \<in> set (rematch r (c # cs) (\<lambda>_. None))" using Cons by simp
    then show ?thesis by blast
  qed
qed

lemma search_ppat_groups: "search ppat s = Some m \<Longrightarrow> m 1 \<noteq> None \<and> m 2 \<noteq> None"
  using search_in_rematch ppat_groups_set by blast

lemma search_rpat_groups: "search rpat s = Some m \<Longrightarrow> m 1 \<noteq> None \<and> m 2 \<noteq> None"
  using search_in_rematch rpat_groups_set by blast

subsection \<open>The methods, step by step\<close>

lemma setscriptheader_nonempty: "elements (snd (setscriptheader c)) \<noteq> []"
  by (simp add: setscriptheader_def Let_def split: option.splits)

lemma read_response_exn: "fst (read_response c w) = None \<or> fst (read_response c w) = Some TypeError"
  by (simp add: read_response_def Let_def split: pyvalue.splits)

lemma send_script_exn: "fst (send_script get c w) = None \<or> fst (send_script get c w) = Some TypeError"
  using read_response_exn by (simp add: send_script_def Let_def split: prod.splits)

lemma parse_pstring_exn: "parse_pstring c = Inl x \<Longrightarrow> x = IncorrectInputError (Some ''coordinate string could not be parsed'')"
  by (auto simp: parse_pstring_def Let_def split: prod.splits option.splits)

lemma coo_query_exn: "coo_query c = Inl x \<Longrightarrow> x \<noteq> NoQueryElementsError"
  by (auto simp: coo_query_def Let_def split: if_splits)

lemma setscriptheader_exn:
  "fst (setscriptheader c) = None \<or> fst (setscriptheader c) = Some AttributeError \<or>
   fst (setscriptheader c) = Some KeyError"
  by (simp add: setscriptheader_def Let_def split: option.splits)

lemma setscriptheader_ok:
  "qType c = Some t \<Longrightarrow> map_of (qFormats c) t = Some f \<Longrightarrow>
   setscriptheader c = (None, c\<lparr>elements := elements c @ header_lines f\<rparr>)"
  by (simp add: setscriptheader_def Let_def header_lines_def)

lemma doPositionQuery_unfold:
  assumes "setscriptheader (c\<lparr>qType := Some ''posquery'', script := [], elements := []\<rparr>) = (e, c2)"
  shows "doPositionQuery get c w =
     (case e of
        Some x \<Rightarrow> (Some x, c2, w)
      | None \<Rightarrow>
          (case (if pstring c2 \<noteq> [] then parse_pstring c2 else Inr c2) of
             Inl x \<Rightarrow> (Some x, c2, w)
           | Inr c3 \<Rightarrow>
               if ra c3 \<noteq> [] \<and> dec c3 \<noteq> []
               then (case coo_query c3 of
                       Inl x \<Rightarrow> (Some x, c3, w)
                     | Inr q \<Rightarrow> send_script get (c3\<lparr>elements := elements c3 @ [q]\<rparr>) w)
               else (Some (IncorrectInputError None), c3\<lparr>result := PyStr []\<rparr>, w)))"
proof -
  have "elements c2 \<noteq> []"
    using assms setscriptheader_nonempty[of "c\<lparr>qType := Some ''posquery'', script := [], elements := []\<rparr>"]
    by simp
  then show ?thesis using assms by (simp add: doPositionQuery_def)
qed

lemma doObjectQuery_unfold:
  assumes "setscriptheader (c\<lparr>qType := Some ''objquery'', script := [], elements := []\<rparr>) = (e, c2)"
  shows "doObjectQuery get c w =
     (case e of
        Some x \<Rightarrow> (Some x, c2, w)
      | None \<Rightarrow>
          (case ostring c2 of
             None \<Rightarrow> (Some AttributeError, c2, w)
           | Some os \<Rightarrow>
               if os \<noteq> []
               then send_script get (c2\<lparr>elements := elements c2 @ [join nl (split_on (CHR '','') os)]\<rparr>) w
               else (Some (IncorrectInputError None), c2\<lparr>result := PyStr []\<rparr>, w)))"
proof -
  have "elements c2 \<noteq> []"
    using assms setscriptheader_nonempty[of "c\<lparr>qType := Some ''objquery'', script := [], elements := []\<rparr>"]
    by simp
  then show ?thesis using assms
    by (simp add: doObjectQuery_def Let_def split_on_nonempty split: option.splits)
qed

text \<open>
  Claim C9. The branch that raises \<open>NoQueryElementsError\<close> is unreachable in both public
  methods: neither \<open>doPositionQuery\<close> nor \<open>doObjectQuery\<close> ever ends with that
  exception, whatever the instance, the world and the transport. The reason is that
  \<open>__setscriptheader\<close> always leaves \<open>elements\<close> non-empty (its first \<open>append\<close> comes
  before anything that can fail), and with the formats that \<open>__init__\<close> installs it
  turns the emptied list into the four header lines.
\<close>

theorem no_query_elements_unreachable:
  "fst (doPositionQuery get c w) \<noteq> Some NoQueryElementsError \<and>
   fst (doObjectQuery get c w) \<noteq> Some NoQueryElementsError \<and>
   elements (snd (setscriptheader c)) \<noteq> [] \<and>
   elements (snd (setscriptheader ((init u p d)\<lparr>qType := Some ''posquery'', elements := []\<rparr>)))
     = header_lines ''%IDLIST(1)'' \<and>
   elements (snd (setscriptheader ((init u p d)\<lparr>qType := Some ''objquery'', elements := []\<rparr>)))
     = header_lines ''%IDLIST(1)''"
proof -
  have snd_ok: "\<And>g c' w'. fst (send_script g c' w') \<noteq> Some NoQueryElementsError"
  proof -
    fix g c' w'
    show "fst (send_script g c' w') \<noteq> Some NoQueryElementsError"
      using send_script_exn[of g c' w'] by auto
  qed
  have hdr_ok: "\<And>c' e c2. setscriptheader c' = (e, c2) \<Longrightarrow> e \<noteq> Some NoQueryElementsError"
  proof -
    fix c' e c2
    assume "setscriptheader c' = (e, c2)"
    then show "e \<noteq> Some NoQueryElementsError" using setscriptheader_exn[of c'] by auto
  qed
  have p: "fst (doPositionQuery get c w) \<noteq> Some NoQueryElementsError"
  proof -
    let ?c1 = "c\<lparr>qType := Some ''posquery'', script := [], elements := []\<rparr>"
    obtain e c2 where h: "setscriptheader ?c1 = (e, c2)" by (cases "setscriptheader ?c1")
    note eq = doPositionQuery_unfold[OF h, of get w]
    show ?thesis
    proof (cases e)
      case (Some x)
      then show ?thesis using eq hdr_ok[OF h] by simp
    next
      case None
      show ?thesis
      proof (cases "if pstring c2 \<noteq> [] then parse_pstring c2 else Inr c2")
        case (Inl x)
        then have "parse_pstring c2 = Inl x" by (simp split: if_splits)
        then have "x \<noteq> NoQueryElementsError" using parse_pstring_exn by blast
        then show ?thesis using eq None Inl by simp
      next
        case (Inr c3)
        show ?thesis
        proof (cases "coo_query c3")
          case (Inl x)
          then have "x \<noteq> NoQueryElementsError" using coo_query_exn by blast
          then show ?thesis using eq None Inr Inl snd_ok by simp
        next
          case (Inr q)
          then show ?thesis using eq None \<open>(if pstring c2 \<noteq> [] then parse_pstring c2 else Inr c2) = Inr c3\<close> snd_ok by simp
        qed
      qed
    qed
  qed
  have q: "fst (doObjectQuery get c w) \<noteq> Some NoQueryElementsError"
  proof -
    let ?c1 = "c\<lparr>qType := Some ''objquery'', script := [], elements := []\<rparr>"
    obtain e c2 where h: "setscriptheader ?c1 = (e, c2)" by (cases "setscriptheader ?c1")
    note eq = doObjectQuery_unfold[OF h, of get w]
    show ?thesis
    proof (cases e)
      case (Some x)
      then show ?thesis using eq hdr_ok[OF h] by simp
    next
      case None
      then show ?thesis using eq snd_ok by (cases "ostring c2") simp_all
    qed
  qed
  have f1: "elements (snd (setscriptheader ((init u p d)\<lparr>qType := Some ''posquery'', elements := []\<rparr>)))
     = header_lines ''%IDLIST(1)''"
    by (simp add: setscriptheader_def init_def header_lines_def)
  have f2: "elements (snd (setscriptheader ((init u p d)\<lparr>qType := Some ''objquery'', elements := []\<rparr>)))
     = header_lines ''%IDLIST(1)''"
    by (simp add: setscriptheader_def init_def header_lines_def)
  from p q setscriptheader_nonempty[of c] f1 f2 show ?thesis by blast
qed

subsection \<open>Parsing the position string\<close>

lemma parse_pstring_nomatch:
  "search ppat (fst (split_radius (strip_quotes (pstring c)))) = None \<Longrightarrow>
   parse_pstring c = Inl (IncorrectInputError (Some ''coordinate string could not be parsed''))"
  by (auto simp: parse_pstring_def Let_def split: prod.splits)

lemma parse_pstring_match:
  "split_radius (strip_quotes (pstring c)) = (radec, rad0) \<Longrightarrow>
   search ppat radec = Some pm \<Longrightarrow>
   parse_pstring c =
     Inr (if radius_of rad0 \<noteq> []
          then (if CHR ''m'' \<in> set (radius_of rad0)
                then c\<lparr>ra := group pm 1, dec := group pm 2, radius := radius_of rad0\<rparr>
                else c\<lparr>ra := group pm 1, dec := group pm 2, radius := radius_of rad0 @ ''d''\<rparr>)
          else c\<lparr>ra := group pm 1, dec := group pm 2\<rparr>)"
  by (simp add: parse_pstring_def Let_def)

text \<open>
  Claim C3, as amended. When the position part of the notation (the text before the
  colon, quotes removed) has no match of the pattern \<open>ppat\<close>, the parse of lines 113 to
  147 fails with an \<open>IncorrectInputError\<close> that carries the message
  \<open>coordinate string could not be parsed\<close>. When the notation is not empty (the method
  skips the parse of an empty one) and the header can be built, \<open>doPositionQuery\<close>
  ends with that exception and sends nothing.
\<close>

theorem unmatched_position_fails:
  assumes "search ppat (fst (split_radius (strip_quotes (pstring c)))) = None"
  shows "parse_pstring c = Inl (IncorrectInputError (Some ''coordinate string could not be parsed'')) \<and>
         (pstring c \<noteq> [] \<and> map_of (qFormats c) ''posquery'' \<noteq> None \<longrightarrow>
            fst (doPositionQuery get c w) =
              Some (IncorrectInputError (Some ''coordinate string could not be parsed'')) \<and>
            snd (snd (doPositionQuery get c w)) = w)"
proof (intro conjI impI)
  show "parse_pstring c = Inl (IncorrectInputError (Some ''coordinate string could not be parsed''))"
    using assms by (rule parse_pstring_nomatch)
next
  assume h: "pstring c \<noteq> [] \<and> map_of (qFormats c) ''posquery'' \<noteq> None"
  then obtain f where f: "map_of (qFormats c) ''posquery'' = Some f" by blast
  let ?c1 = "c\<lparr>qType := Some ''posquery'', script := [], elements := []\<rparr>"
  let ?c2 = "?c1\<lparr>elements := elements ?c1 @ header_lines f\<rparr>"
  have hd: "setscriptheader ?c1 = (None, ?c2)"
    using f by (intro setscriptheader_ok) simp_all
  have "search ppat (fst (split_radius (strip_quotes (pstring ?c2)))) = None"
    using assms by simp
  then have p: "parse_pstring ?c2 = Inl (IncorrectInputError (Some ''coordinate string could not be parsed''))"
    by (rule parse_pstring_nomatch)
  have ne: "pstring ?c2 \<noteq> []" using h by simp
  have eq: "doPositionQuery get c w =
      (Some (IncorrectInputError (Some ''coordinate string could not be parsed'')), ?c2, w)"
    unfolding doPositionQuery_unfold[OF hd, of get w] using p ne by simp
  show "fst (doPositionQuery get c w) =
              Some (IncorrectInputError (Some ''coordinate string could not be parsed''))"
    using eq by simp
  show "snd (snd (doPositionQuery get c w)) = w" using eq by simp
qed

lemma nomatch_M31: "search ppat (fst (split_radius (strip_quotes ''M 31''))) = None"
  by code_simp

text \<open>The notation \<open>M 31\<close> has no declination sign, so nothing matches.\<close>

theorem unmatched_position_fails_witness:
  "parse_pstring ((init [] [] 0)\<lparr>pstring := ''M 31''\<rparr>) =
     Inl (IncorrectInputError (Some ''coordinate string could not be parsed'')) \<and>
   fst (doPositionQuery (reply 200 []) ((init [] [] 0)\<lparr>pstring := ''M 31''\<rparr>) quiet) =
     Some (IncorrectInputError (Some ''coordinate string could not be parsed'')) \<and>
   snd (snd (doPositionQuery (reply 200 []) ((init [] [] 0)\<lparr>pstring := ''M 31''\<rparr>) quiet)) = quiet"
proof -
  have a: "search ppat (fst (split_radius (strip_quotes (pstring ((init [] [] 0)\<lparr>pstring := ''M 31''\<rparr>))))) = None"
    using nomatch_M31 by simp
  have b: "pstring ((init [] [] 0)\<lparr>pstring := ''M 31''\<rparr>) \<noteq> [] \<and>
           map_of (qFormats ((init [] [] 0)\<lparr>pstring := ''M 31''\<rparr>)) ''posquery'' \<noteq> None"
    by (simp add: init_def)
  show ?thesis
    using unmatched_position_fails[OF a, of "reply 200 []" quiet] b by blast
qed

text \<open>
  Claim C3 as stated fails in the class of the exception: the one raised for \<open>M 31\<close> is
  an \<open>IncorrectInputError\<close>, the class that the validation of the declination raises
  too. The module has no class \<open>MalformedCoordinateError\<close>.
\<close>

theorem unmatched_position_class_counterexample:
  "parse_pstring ((init [] [] 0)\<lparr>pstring := ''M 31''\<rparr>) =
     Inl (IncorrectInputError (Some ''coordinate string could not be parsed'')) \<and>
   class_name (IncorrectInputError (Some ''coordinate string could not be parsed'')) \<noteq>
     ''MalformedCoordinateError'' \<and>
   map_sum class_name id (coo_query ((init [] [] 0)\<lparr>ra := ''05 23 34.6'', dec := ''69 45 22''\<rparr>)) =
     Inl ''IncorrectInputError''"
proof -
  have "search ppat (fst (split_radius (strip_quotes
          (pstring ((init [] [] 0)\<lparr>pstring := ''M 31''\<rparr>))))) = None"
    using nomatch_M31 by simp
  then have "parse_pstring ((init [] [] 0)\<lparr>pstring := ''M 31''\<rparr>) =
      Inl (IncorrectInputError (Some ''coordinate string could not be parsed''))"
    by (rule parse_pstring_nomatch)
  moreover have "map_sum class_name id
      (coo_query ((init [] [] 0)\<lparr>ra := ''05 23 34.6'', dec := ''69 45 22''\<rparr>)) =
        Inl ''IncorrectInputError''"
    by (simp add: coo_query_def)
  ultimately show ?thesis by simp
qed

text \<open>
  Claim C10, as amended. When the notation has exactly one colon, the text after it is
  not empty and has no match of \<open>rpat\<close>, and the position part is matched, the radius
  text is kept as it is: with \<open>d\<close> appended when it contains no \<open>m\<close>, and unchanged
  when it contains one.
\<close>

theorem unmatched_radius_kept:
  assumes "split_radius (strip_quotes (pstring c)) = (radec, rad)"
      and "rad \<noteq> []"
      and "search rpat rad = None"
      and "search ppat radec = Some pm"
  shows "parse_pstring c =
           Inr (c\<lparr>ra := group pm 1, dec := group pm 2,
                  radius := (if CHR ''m'' \<in> set rad then rad else rad @ ''d'')\<rparr>)"
proof -
  have "radius_of rad = rad" using assms(3) by (simp add: radius_of_def)
  then show ?thesis
    using parse_pstring_match[OF assms(1) assms(4)] assms(2) by simp
qed


lemma example_0_16667:
  "split_radius (strip_quotes ''05 23 34.6 -69 45 22:0.16667'') = (''05 23 34.6 -69 45 22'', ''0.16667'')"
  "search rpat ''0.16667'' = None"
  by code_simp+

lemma example_position_code:
  "search ppat ''05 23 34.6 -69 45 22'' \<noteq> None"
  "group (the (search ppat ''05 23 34.6 -69 45 22'')) 1 = ''05 23 34.6''"
  "group (the (search ppat ''05 23 34.6 -69 45 22'')) 2 = ''-69 45 22''"
  by code_simp+

lemma example_position:
  "\<exists>pm. search ppat ''05 23 34.6 -69 45 22'' = Some pm \<and>
        group pm 1 = ''05 23 34.6'' \<and> group pm 2 = ''-69 45 22''"
proof -
  obtain pm where pm: "search ppat ''05 23 34.6 -69 45 22'' = Some pm"
    using example_position_code(1) by blast
  have "group pm 1 = ''05 23 34.6''" and "group pm 2 = ''-69 45 22''"
    using example_position_code(2,3) unfolding pm by (simp_all only: option.sel)
  with pm show ?thesis by blast
qed

text \<open>The example of the module's docstring, \<open>05 23 34.6 -69 45 22:0.16667\<close>.\<close>

theorem unmatched_radius_kept_witness:
  "parse_pstring ((init [] [] 0)\<lparr>pstring := ''05 23 34.6 -69 45 22:0.16667''\<rparr>) =
     Inr ((init [] [] 0)\<lparr>pstring := ''05 23 34.6 -69 45 22:0.16667'',
            ra := ''05 23 34.6'', dec := ''-69 45 22'', radius := ''0.16667d''\<rparr>)"
proof -
  let ?c = "(init [] [] 0)\<lparr>pstring := ''05 23 34.6 -69 45 22:0.16667''\<rparr>"
  have a: "split_radius (strip_quotes (pstring ?c)) = (''05 23 34.6 -69 45 22'', ''0.16667'')"
    using example_0_16667(1) by simp
  have b: "''0.16667'' \<noteq> []" by simp
  obtain pm where pm: "search ppat ''05 23 34.6 -69 45 22'' = Some pm"
      "group pm 1 = ''05 23 34.6''" "group pm 2 = ''-69 45 22''"
    using example_position by blast
  show ?thesis
    using unmatched_radius_kept[OF a b example_0_16667(2) pm(1)]
    using pm(2,3) by simp
qed

lemma example_5m:
  "split_radius (strip_quotes ''1 +2:5m'') = (''1 +2'', ''5m'')"
  "search rpat ''5m'' = None"
  "search ppat ''1 +2'' \<noteq> None"
  "radius_of ''5m'' = ''5m''"
  by code_simp+

text \<open>
  Claim C10 as stated fails: the radius text \<open>5m\<close> has no match of \<open>rpat\<close>, yet no
  \<open>d\<close> is appended to it, because it contains an \<open>m\<close>.
\<close>

theorem unmatched_radius_with_m_counterexample:
  "snd (split_radius (strip_quotes ''1 +2:5m'')) = ''5m'' \<and>
   search rpat ''5m'' = None \<and>
   radius (projr (parse_pstring ((init [] [] 0)\<lparr>pstring := ''1 +2:5m''\<rparr>))) = ''5m'' \<and>
   radius (projr (parse_pstring ((init [] [] 0)\<lparr>pstring := ''1 +2:5m''\<rparr>))) \<noteq> ''5m'' @ ''d''"
proof -
  let ?c = "(init [] [] 0)\<lparr>pstring := ''1 +2:5m''\<rparr>"
  have a: "split_radius (strip_quotes (pstring ?c)) = (''1 +2'', ''5m'')"
    using example_5m(1) by simp
  obtain pm where pm: "search ppat ''1 +2'' = Some pm"
    using example_5m(3) by blast
  have "radius (projr (parse_pstring ?c)) = ''5m''"
    using parse_pstring_match[OF a pm] by (simp add: example_5m(4))
  then show ?thesis using example_5m(1,2) by simp
qed

lemma example_0_6:
  "split_radius (strip_quotes ''05 23 34.6 -69 45 22:0 6'') = (''05 23 34.6 -69 45 22'', ''0 6'')"
  "radius_of ''0 6'' = ''6m''"
  by code_simp+

lemma parse_example_0_6:
  "parse_pstring (c\<lparr>pstring := ''05 23 34.6 -69 45 22:0 6''\<rparr>) =
     Inr (c\<lparr>pstring := ''05 23 34.6 -69 45 22:0 6'',
            ra := ''05 23 34.6'', dec := ''-69 45 22'', radius := ''6m''\<rparr>)"
proof -
  let ?c = "c\<lparr>pstring := ''05 23 34.6 -69 45 22:0 6''\<rparr>"
  have a: "split_radius (strip_quotes (pstring ?c)) = (''05 23 34.6 -69 45 22'', ''0 6'')"
    using example_0_6(1) by simp
  obtain pm where pm: "search ppat ''05 23 34.6 -69 45 22'' = Some pm"
      "group pm 1 = ''05 23 34.6''" "group pm 2 = ''-69 45 22''"
    using example_position by blast
  show ?thesis
    using parse_pstring_match[OF a pm(1)] using pm(2,3) by (simp add: example_0_6(2))
qed

text \<open>
  Claim C4, as amended. The notation \<open>05 23 34.6 -69 45 22:0 6\<close> gives the right
  ascension \<open>05 23 34.6\<close>, the declination \<open>-69 45 22\<close> and the radius \<open>6m\<close>:
  the first group of the radius is zero and is dropped.
\<close>

theorem example_notation_parsed:
  "parse_pstring (c\<lparr>pstring := ''05 23 34.6 -69 45 22:0 6''\<rparr>) =
     Inr (c\<lparr>pstring := ''05 23 34.6 -69 45 22:0 6'',
            ra := ''05 23 34.6'', dec := ''-69 45 22'', radius := ''6m''\<rparr>)"
  by (rule parse_example_0_6)

text \<open>Claim C4 as stated fails: the radius is not \<open>0h6m\<close>.\<close>

theorem example_notation_radius_counterexample:
  "ra (projr (parse_pstring ((init [] [] 0)\<lparr>pstring := ''05 23 34.6 -69 45 22:0 6''\<rparr>))) = ''05 23 34.6'' \<and>
   dec (projr (parse_pstring ((init [] [] 0)\<lparr>pstring := ''05 23 34.6 -69 45 22:0 6''\<rparr>))) = ''-69 45 22'' \<and>
   radius (projr (parse_pstring ((init [] [] 0)\<lparr>pstring := ''05 23 34.6 -69 45 22:0 6''\<rparr>))) \<noteq> ''0h6m''"
  by (simp add: parse_example_0_6)

lemma rpat_two_groups:
  assumes z: "z \<noteq> []" "\<forall>ch\<in>set z. isdigit ch"
      and sp: "sp \<noteq> []" "\<forall>ch\<in>set sp. isspace ch"
      and m: "m \<noteq> []" "\<forall>ch\<in>set m. isdigit ch"
  shows "\<exists>pm. search rpat (z @ sp @ m) = Some pm \<and> pm 1 = Some z \<and> pm 2 = Some m \<and> pm 3 = None"
proof -
  let ?g0 = "(\<lambda>_. None) :: groups"
  let ?g1 = "?g0(1 \<mapsto> z)"
  let ?g2 = "?g1(2 \<mapsto> m)"
  let ?tail = "Cat (Star isspace) (Opt (Group 3 (Plus isdigit)))"
  obtain a sp' where sp_eq: "sp = a # sp'" using sp(1) by (cases sp) auto
  then have a: "\<not> isdigit a" using sp(2) space_not_digit by simp
  obtain b m' where m_eq: "m = b # m'" using m(1) by (cases m) auto
  then have "isdigit b" using m(2) by simp
  then have b: "\<not> isspace b" using space_not_digit by blast
  have "takeWhile isdigit (sp @ m) = []" using a sp_eq by simp
  then have tw1: "takeWhile isdigit (z @ sp @ m) = z"
    using z(2) by (simp add: takeWhile_append2)
  have "dropWhile isdigit (sp @ m) = sp @ m" using a sp_eq by simp
  then have dw1: "dropWhile isdigit (z @ sp @ m) = sp @ m"
    using z(2) by (simp add: dropWhile_append2)
  have "takeWhile isspace m = []" using b m_eq by simp
  then have tw2: "takeWhile isspace (sp @ m) = sp"
    using sp(2) by (simp add: takeWhile_append2)
  have "dropWhile isspace m = m" using b m_eq by simp
  then have dw2: "dropWhile isspace (sp @ m) = m"
    using sp(2) by (simp add: dropWhile_append2)
  have tw3: "takeWhile isdigit m = m" using m(2) by simp
  have dw3: "dropWhile isdigit m = []" using m(2) by simp
  have ne1: "takeWhile isdigit (z @ sp @ m) \<noteq> []" unfolding tw1 by (rule z(1))
  have ne2: "takeWhile isspace (sp @ m) \<noteq> []" unfolding tw2 by (rule sp(1))
  have ne3: "takeWhile isdigit m \<noteq> []" unfolding tw3 by (rule m(1))
  have tk1: "take (length (z @ sp @ m) - length (sp @ m)) (z @ sp @ m) = z" by simp
  have tk2: "take (length m - length ([]::string)) m = m" by simp
  obtain t1 where p1: "rematch (Plus isdigit) (z @ sp @ m) ?g0 = (sp @ m, ?g0) # t1"
    using rematch_Plus_first[OF ne1, of ?g0] unfolding dw1 by blast
  obtain t1' where "rematch (Group 1 (Plus isdigit)) (z @ sp @ m) ?g0 =
      (sp @ m, ?g0(1 \<mapsto> take (length (z @ sp @ m) - length (sp @ m)) (z @ sp @ m))) # t1'"
    using rematch_Group_first[OF p1, of 1] by blast
  then have s1: "rematch (Group 1 (Plus isdigit)) (z @ sp @ m) ?g0 = (sp @ m, ?g1) # t1'"
    unfolding tk1 .
  obtain t2 where s2: "rematch (Plus isspace) (sp @ m) ?g1 = (m, ?g1) # t2"
    using rematch_Plus_first[OF ne2, of ?g1] unfolding dw2 by blast
  obtain t3 where p3: "rematch (Plus isdigit) m ?g1 = ([], ?g1) # t3"
    using rematch_Plus_first[OF ne3, of ?g1] unfolding dw3 by blast
  obtain t3' where "rematch (Group 2 (Plus isdigit)) m ?g1 =
      ([], ?g1(2 \<mapsto> take (length m - length ([]::string)) m)) # t3'"
    using rematch_Group_first[OF p3, of 2] by blast
  then have s3: "rematch (Group 2 (Plus isdigit)) m ?g1 = ([], ?g2) # t3'"
    unfolding tk2 .
  have s4: "rematch ?tail [] ?g2 = ([], ?g2) # []"
    by simp
  obtain u3 where c3: "rematch (Cat (Group 2 (Plus isdigit)) ?tail) m ?g1 = ([], ?g2) # u3"
    using rematch_Cat_first[OF s3 s4] by blast
  obtain u2 where c2: "rematch (Cat (Plus isspace) (Cat (Group 2 (Plus isdigit)) ?tail)) (sp @ m) ?g1
      = ([], ?g2) # u2"
    using rematch_Cat_first[OF s2 c3] by blast
  obtain u1 where c1: "rematch rpat (z @ sp @ m) ?g0 = ([], ?g2) # u1"
    unfolding rpat_def using rematch_Cat_first[OF s1 c2] by blast
  have "z @ sp @ m \<noteq> []" using z(1) by simp
  then have "search rpat (z @ sp @ m) = Some ?g2" using c1 by (rule search_first)
  then show ?thesis by simp
qed

lemma colon_not_digit: "\<not> isdigit (CHR '':'')"
  by (simp add: isdigit_def)

lemma colon_not_space: "\<not> isspace (CHR '':'')"
  by (simp add: isspace_def)

text \<open>
  Claim C5. When the radius part of the notation is a group of digits of value zero,
  white space and a second group of digits \<open>m\<close>, and the position part is matched,
  the normalized radius is \<open>m\<close> followed by the letter \<open>m\<close>.
\<close>

theorem zero_first_group_gives_minutes:
  assumes pos: "strip_quotes (pstring c) = radec @ '':'' @ z @ sp @ m"
      and radec: "CHR '':'' \<notin> set radec"
      and z: "z \<noteq> []" "\<forall>ch\<in>set z. isdigit ch" "int_of_digits z = 0"
      and sp: "sp \<noteq> []" "\<forall>ch\<in>set sp. isspace ch"
      and m: "m \<noteq> []" "\<forall>ch\<in>set m. isdigit ch"
      and pm: "search ppat radec = Some pm"
  shows "parse_pstring c =
           Inr (c\<lparr>ra := group pm 1, dec := group pm 2, radius := m @ ''m''\<rparr>)"
proof -
  have "CHR '':'' \<notin> set z" using z(2) colon_not_digit by blast
  moreover have "CHR '':'' \<notin> set sp" using sp(2) colon_not_space by blast
  moreover have "CHR '':'' \<notin> set m" using m(2) colon_not_digit by blast
  ultimately have nocolon: "CHR '':'' \<notin> set (z @ sp @ m)" by simp
  have "split_on (CHR '':'') (radec @ CHR '':'' # (z @ sp @ m)) =
        radec # split_on (CHR '':'') (z @ sp @ m)"
    using radec by (rule split_on_append)
  also have "split_on (CHR '':'') (z @ sp @ m) = [z @ sp @ m]"
    using nocolon by (rule split_on_notin)
  finally have so: "split_on (CHR '':'') (radec @ CHR '':'' # (z @ sp @ m)) = [radec, z @ sp @ m]" .
  have "radec @ '':'' @ z @ sp @ m = radec @ CHR '':'' # (z @ sp @ m)" by simp
  then have "split_on (CHR '':'') (strip_quotes (pstring c)) = [radec, z @ sp @ m]"
    using pos so by (simp only:)
  then have sr: "split_radius (strip_quotes (pstring c)) = (radec, z @ sp @ m)"
    unfolding split_radius_def by (simp only: list.case prod.case)
  obtain rm where rm: "search rpat (z @ sp @ m) = Some rm" "rm 1 = Some z" "rm 2 = Some m" "rm 3 = None"
    using rpat_two_groups[OF z(1,2) sp m] by blast
  have ro: "radius_of (z @ sp @ m) = m @ ''m''"
    unfolding radius_of_def group_def using rm z(3) by (simp del: search.simps)
  have ne: "m @ ''m'' \<noteq> []" by simp
  have mm: "CHR ''m'' \<in> set (m @ ''m'')" by simp
  show ?thesis
    using parse_pstring_match[OF sr pm] unfolding ro using ne mm by (simp only: simp_thms if_True)
qed

lemma example_00_15:
  "strip_quotes ''10 20 30 +40 50 60:00  15'' = ''10 20 30 +40 50 60'' @ '':'' @ ''00'' @ ''  '' @ ''15''"
  "CHR '':'' \<notin> set ''10 20 30 +40 50 60''"
  "\<forall>ch\<in>set ''00''. isdigit ch"
  "int_of_digits ''00'' = 0"
  "\<forall>ch\<in>set ''  ''. isspace ch"
  "\<forall>ch\<in>set ''15''. isdigit ch"
  by code_simp+

lemma example_position2_code:
  "search ppat ''10 20 30 +40 50 60'' \<noteq> None"
  "group (the (search ppat ''10 20 30 +40 50 60'')) 1 = ''10 20 30''"
  "group (the (search ppat ''10 20 30 +40 50 60'')) 2 = ''+40 50 60''"
  by code_simp+

lemma example_position2:
  "\<exists>pm. search ppat ''10 20 30 +40 50 60'' = Some pm \<and>
        group pm 1 = ''10 20 30'' \<and> group pm 2 = ''+40 50 60''"
proof -
  obtain pm where pm: "search ppat ''10 20 30 +40 50 60'' = Some pm"
    using example_position2_code(1) by blast
  have "group pm 1 = ''10 20 30''" and "group pm 2 = ''+40 50 60''"
    using example_position2_code(2,3) unfolding pm by (simp_all only: option.sel)
  with pm show ?thesis by blast
qed

text \<open>A first group \<open>00\<close> and two spaces before the minutes.\<close>

theorem zero_first_group_gives_minutes_witness:
  "parse_pstring ((init [] [] 0)\<lparr>pstring := ''10 20 30 +40 50 60:00  15''\<rparr>) =
     Inr ((init [] [] 0)\<lparr>pstring := ''10 20 30 +40 50 60:00  15'',
            ra := ''10 20 30'', dec := ''+40 50 60'', radius := ''15m''\<rparr>)"
proof -
  let ?c = "(init [] [] 0)\<lparr>pstring := ''10 20 30 +40 50 60:00  15''\<rparr>"
  have a: "strip_quotes (pstring ?c) = ''10 20 30 +40 50 60'' @ '':'' @ ''00'' @ ''  '' @ ''15''"
    using example_00_15(1) by simp
  obtain pm where pm: "search ppat ''10 20 30 +40 50 60'' = Some pm"
      "group pm 1 = ''10 20 30''" "group pm 2 = ''+40 50 60''"
    using example_position2 by blast
  have n1: "''00'' \<noteq> []" and n2: "''  '' \<noteq> []" and n3: "''15'' \<noteq> []" by simp_all
  show ?thesis
    using zero_first_group_gives_minutes[OF a example_00_15(2) n1 example_00_15(3,4) n2
        example_00_15(5) n3 example_00_15(6) pm(1)]
    using pm(2,3) by simp
qed

subsection \<open>Reading the response\<close>

lemma spec_identifiers_eq:
  "map (\<lambda>c. c ! 1) (filter (\<lambda>b. length b = 2) (map split_ws (nonempty_lines raw))) =
   spec_identifiers raw"
proof -
  have "\<And>ts :: string list. length ts = 2 \<Longrightarrow> ts ! 1 = hd (tl ts)"
  proof -
    fix ts :: "string list"
    assume "length ts = 2"
    then obtain a b where "ts = [a, b]"
      by (cases ts; cases "tl ts") auto
    then show "ts ! 1 = hd (tl ts)" by simp
  qed
  then have "map (\<lambda>c. c ! 1) (filter (\<lambda>b. length b = 2) (map split_ws (nonempty_lines raw))) =
        map (\<lambda>ts. hd (tl ts)) (filter (\<lambda>b. length b = 2) (map split_ws (nonempty_lines raw)))"
    by (intro map_cong) auto
  moreover have "nonempty_lines raw = filter (\<lambda>l. l \<noteq> [] \<and> l \<noteq> ''XXX'') (split_on (CHR 0x0A) raw)"
    by (simp add: nonempty_lines_def)
  ultimately show ?thesis by (simp add: spec_identifiers_def Let_def)
qed

lemma read_response_str:
  "result c = PyStr raw \<Longrightarrow>
   read_response c w =
     (let w1 = (if contains '':error:'' raw \<and> debug c \<noteq> 0
                then w\<lparr>stderr := stderr w @ [''Returned result:'' @ nl @ raw @ nl]\<rparr> else w);
          c1 = (if contains '':error:'' raw then c\<lparr>error := error_message raw\<rparr> else c)
      in if error c1 = []
         then (None, c1\<lparr>result := PyList (spec_identifiers raw)\<rparr>, w1)
         else (None, c1, w1))"
  unfolding read_response_def spec_identifiers_eq by simp

lemma example_response:
  "spec_identifiers example_reply = [''2006070'']"
  "\<not> contains '':error:'' example_reply"
  by code_simp+

text \<open>
  The success path of lines 188 to 191. For a response without the marker \<open>:error:\<close>,
  read while the attribute \<open>error\<close> is empty, the result is the list that the
  specification describes: drop the empty lines and the lines \<open>XXX\<close>, split each
  remaining line on white space, keep the lines of exactly two tokens, take the second
  token of each, in order. Whenever the method produces a list at all, it is that list.
\<close>

lemma identifiers_as_specified:
  assumes "result c = PyStr raw"
  shows "(\<not> contains '':error:'' raw \<and> error c = [] \<longrightarrow>
            read_response c w = (None, c\<lparr>result := PyList (spec_identifiers raw)\<rparr>, w)) \<and>
         (\<forall>ids. result (fst (snd (read_response c w))) = PyList ids \<longrightarrow> ids = spec_identifiers raw) \<and>
         spec_identifiers example_reply = [''2006070'']"
proof (intro conjI impI allI)
  assume "\<not> contains '':error:'' raw \<and> error c = []"
  then show "read_response c w = (None, c\<lparr>result := PyList (spec_identifiers raw)\<rparr>, w)"
    using assms by (simp add: read_response_str)
next
  fix ids
  assume "result (fst (snd (read_response c w))) = PyList ids"
  then show "ids = spec_identifiers raw"
    using assms by (simp add: read_response_str Let_def split: if_splits)
next
  show "spec_identifiers example_reply = [''2006070'']"
    by (rule example_response(1))
qed

text \<open>The example response read by a new instance.\<close>

lemma identifiers_example:
  "read_response ((init [] [] 0)\<lparr>result := PyStr example_reply\<rparr>) quiet =
     (None, (init [] [] 0)\<lparr>result := PyList [''2006070'']\<rparr>, quiet)"
proof -
  let ?raw = "example_reply"
  let ?c = "(init [] [] 0)\<lparr>result := PyStr ?raw\<rparr>"
  have a: "result ?c = PyStr ?raw" by simp
  have b: "\<not> contains '':error:'' ?raw \<and> error ?c = []"
    using example_response(2) by (simp add: init_def)
  have "read_response ?c quiet = (None, ?c\<lparr>result := PyList (spec_identifiers ?raw)\<rparr>, quiet)"
    using identifiers_as_specified[OF a, of quiet] b by blast
  then show ?thesis by (simp add: example_response(1))
qed

text \<open>
  Claim C7 does not hold of the code on an instance that is used again. The response
  \<open>"XXX\nobj1 2006070\nXXX"\<close> has no marker \<open>:error:\<close> and the list the claim
  describes for it is \<open>["2006070"]\<close>; a new instance produces it. The second of two
  queries on one instance, after a first one that the server answered with an error,
  receives that response and produces no list: \<open>error\<close> still holds the message of the
  first query, the test \<open>if not self.error\<close> fails and \<open>result\<close> stays the raw text.
\<close>

theorem stale_error_blocks_identifier_list:
  "\<not> contains '':error:'' example_reply \<and>
   spec_identifiers example_reply = [''2006070''] \<and>
   result (fst (snd (doObjectQuery (reply 200 example_reply)
      ((init [] [] 0)\<lparr>ostring := Some ''M31''\<rparr>) quiet))) = PyList [''2006070''] \<and>
   fst second_query = None \<and>
   error (fst (snd second_query)) = ''::error:: bad syntax'' \<and>
   result (fst (snd second_query)) = PyStr example_reply \<and>
   result (fst (snd second_query)) \<noteq> PyList [''2006070'']"
  by code_simp

text \<open>
  Claim C1, as amended. When the response is read while the attribute \<open>error\<close> is
  empty, the error message is empty for a response without the marker \<open>:error:\<close>, and
  is the message built from the lines of the response when the marker is there. The two
  outcomes exclude each other according to that message: when it is not empty the
  result stays the raw text and no list is produced; when it is empty the result is the
  list of identifiers.
\<close>

theorem outcome_channels:
  assumes "result c = PyStr raw" and "error c = []"
  shows "error (fst (snd (read_response c w))) =
           (if contains '':error:'' raw then error_message raw else []) \<and>
         (error (fst (snd (read_response c w))) \<noteq> [] \<longrightarrow>
            result (fst (snd (read_response c w))) = PyStr raw) \<and>
         (error (fst (snd (read_response c w))) = [] \<longrightarrow>
            result (fst (snd (read_response c w))) = PyList (spec_identifiers raw))"
  using assms by (simp add: read_response_str Let_def)

lemma example_error_response:
  "contains '':error:'' (''::error:: bad syntax'' @ nl @ '':::detail:::'')"
  "error_message (''::error:: bad syntax'' @ nl @ '':::detail:::'') = ''::error:: bad syntax''"
  by code_simp+

text \<open>The response \<open>"::error:: bad syntax\n:::detail:::"\<close>.\<close>

theorem outcome_channels_witness:
  "error (fst (snd (read_response
      ((init [] [] 0)\<lparr>result := PyStr (''::error:: bad syntax'' @ nl @ '':::detail:::'')\<rparr>) quiet))) =
     ''::error:: bad syntax'' \<and>
   result (fst (snd (read_response
      ((init [] [] 0)\<lparr>result := PyStr (''::error:: bad syntax'' @ nl @ '':::detail:::'')\<rparr>) quiet))) =
     PyStr (''::error:: bad syntax'' @ nl @ '':::detail:::'')"
proof -
  let ?raw = "''::error:: bad syntax'' @ nl @ '':::detail:::''"
  let ?c = "(init [] [] 0)\<lparr>result := PyStr ?raw\<rparr>"
  have a: "result ?c = PyStr ?raw" by simp
  have b: "error ?c = []" by (simp add: init_def)
  show ?thesis
    using outcome_channels[OF a b, of quiet] example_error_response
    by (simp del: contains.simps)
qed

lemma example_marker_only:
  "contains '':error:'' '':::error::: x''"
  "error_message '':::error::: x'' = []"
  "spec_identifiers '':::error::: x'' = [''x'']"
  by code_simp+

lemma marker_query_outcome:
  "fst marker_query = None"
  "error (fst (snd marker_query)) = []"
  "result (fst (snd marker_query)) = PyList [''x'']"
  by code_simp+

text \<open>
  Claim C1 as stated fails: the response \<open>:::error::: x\<close> contains the marker, but its
  only line contains \<open>:::\<close> and is left out of the message; the message is empty, the
  test \<open>if not self.error\<close> succeeds and the result is the non-empty list \<open>["x"]\<close>.
\<close>

theorem marker_with_identifiers_counterexample:
  "contains '':error:'' '':::error::: x'' \<and>
   result (fst (snd (read_response ((init [] [] 0)\<lparr>result := PyStr '':::error::: x''\<rparr>) quiet))) =
     PyList [''x''] \<and>
   error (fst (snd marker_query)) = [] \<and>
   result (fst (snd marker_query)) = PyList [''x''] \<and>
   [''x''] \<noteq> ([] :: string list)"
proof -
  let ?c = "(init [] [] 0)\<lparr>result := PyStr '':::error::: x''\<rparr>"
  have r: "result ?c = PyStr '':::error::: x''" by simp
  have "result (fst (snd (read_response ?c quiet))) = PyList [''x'']"
    unfolding read_response_str[OF r]
    using example_marker_only by (simp add: Let_def del: contains.simps)
  then show ?thesis
    using example_marker_only(1) marker_query_outcome by (simp del: contains.simps)
qed

subsection \<open>Sending the script\<close>

lemma read_response_keeps:
  "script (fst (snd (read_response c w))) = script c \<and>
   requests (snd (snd (read_response c w))) = requests w"
  by (simp add: read_response_def Let_def split: pyvalue.splits)

lemma send_script_sends:
  "script (fst (snd (send_script get c w))) = join nl (elements c) \<and>
   requests (snd (snd (send_script get c w))) =
     requests w @ [\<lparr> req_url = baseURL c @ ''/'' @ preamble c,
                      req_params = [(''submit'', ''submit script''), (''script'', join nl (elements c))],
                      req_proxies = proxees c \<rparr>]"
  by (simp add: send_script_def doQuery_def Let_def read_response_keeps)

lemma example_names:
  "split_on (CHR '','') ''M31,M101,TW Hydrae'' = [''M31'', ''M101'', ''TW Hydrae'']"
  by code_simp

text \<open>Splitting a joined list at the separator gives the list back, when no element
  contains the separator.\<close>

lemma split_on_join:
  "xs \<noteq> [] \<Longrightarrow> \<forall>x\<in>set xs. c \<notin> set x \<Longrightarrow> split_on c (join [c] xs) = xs"
proof (induction "[c]" xs rule: join.induct)
  case 1
  then show ?case by simp
next
  case (2 x)
  then show ?case by (simp add: split_on_notin)
next
  case (3 x y ys)
  have "c \<notin> set x" using 3 by simp
  then have "split_on c (x @ c # join [c] (y # ys)) = x # split_on c (join [c] (y # ys))"
    by (rule split_on_append)
  moreover have "split_on c (join [c] (y # ys)) = y # ys" using 3 by simp
  ultimately show ?case by simp
qed

lemma split_on_pieces: "x \<in> set (split_on c s) \<Longrightarrow> set x \<subseteq> set s"
proof (induction s arbitrary: x)
  case Nil
  then show ?case by simp
next
  case (Cons a s)
  show ?case
  proof (cases "a = c")
    case True
    then show ?thesis using Cons by auto
  next
    case False
    obtain p ps where ps: "split_on c s = p # ps"
      using split_on_nonempty[of c s] by (cases "split_on c s") auto
    then have "x = a # p \<or> x \<in> set ps" using Cons.prems False by (simp add: Let_def)
    moreover have "set p \<subseteq> set s" using Cons.IH[of p] ps by simp
    moreover have "x \<in> set ps \<Longrightarrow> set x \<subseteq> set s" using Cons.IH[of x] ps by simp
    ultimately show ?thesis by auto
  qed
qed

lemma header_lines_no_newline:
  "CHR 0x0A \<notin> set f \<Longrightarrow> \<forall>x\<in>set (header_lines f). CHR 0x0A \<notin> set x"
  by (simp add: header_lines_def)

lemma script_lines:
  assumes "CHR 0x0A \<notin> set f" and "CHR 0x0A \<notin> set os"
  shows "split_on (CHR 0x0A) (join nl (header_lines f @ split_on (CHR '','') os)) =
         header_lines f @ split_on (CHR '','') os"
proof -
  have "\<forall>x\<in>set (split_on (CHR '','') os). CHR 0x0A \<notin> set x"
    using split_on_pieces assms(2) by blast
  then have "\<forall>x\<in>set (header_lines f @ split_on (CHR '','') os). CHR 0x0A \<notin> set x"
    using header_lines_no_newline[OF assms(1)] by auto
  moreover have "header_lines f @ split_on (CHR '','') os \<noteq> []"
    by (simp add: header_lines_def)
  ultimately show ?thesis unfolding nl_def by (rule split_on_join[rotated])
qed

text \<open>
  Claim C8. With the output format for \<open>objquery\<close> in place, \<open>doObjectQuery\<close> on a
  non-empty string of names sends one request, whose script is the header lines followed
  by the names between the commas, joined by newlines in the order of the input. When
  neither the format nor the string contains a newline, the lines of that script are
  exactly the header lines followed by the names: each name is a line of its own. On the
  empty string the method raises \<open>IncorrectInputError\<close> and the world is unchanged:
  nothing is sent. The string \<open>M31,M101,TW Hydrae\<close> splits into three names.
\<close>

theorem object_names_one_per_line:
  assumes "map_of (qFormats c) ''objquery'' = Some f"
  shows "(ostring c = Some os \<and> os \<noteq> [] \<longrightarrow>
            script (fst (snd (doObjectQuery get c w))) =
              join nl (header_lines f @ split_on (CHR '','') os) \<and>
            requests (snd (snd (doObjectQuery get c w))) =
              requests w @ [\<lparr> req_url = baseURL c @ ''/'' @ preamble c,
                  req_params = [(''submit'', ''submit script''),
                                (''script'', join nl (header_lines f @ split_on (CHR '','') os))],
                  req_proxies = proxees c \<rparr>] \<and>
            (CHR 0x0A \<notin> set f \<and> CHR 0x0A \<notin> set os \<longrightarrow>
               split_on (CHR 0x0A) (script (fst (snd (doObjectQuery get c w)))) =
                 header_lines f @ split_on (CHR '','') os)) \<and>
         (ostring c = Some [] \<longrightarrow>
            fst (doObjectQuery get c w) = Some (IncorrectInputError None) \<and>
            snd (snd (doObjectQuery get c w)) = w) \<and>
         split_on (CHR '','') ''M31,M101,TW Hydrae'' = [''M31'', ''M101'', ''TW Hydrae'']"
proof -
  let ?c1 = "c\<lparr>qType := Some ''objquery'', script := [], elements := []\<rparr>"
  let ?c2 = "?c1\<lparr>elements := elements ?c1 @ header_lines f\<rparr>"
  let ?S = "join nl (header_lines f @ split_on (CHR '','') os)"
  have hd: "setscriptheader ?c1 = (None, ?c2)"
    using assms by (intro setscriptheader_ok) simp_all
  note eq = doObjectQuery_unfold[OF hd, of get w]
  have one: "ostring c = Some os \<and> os \<noteq> [] \<longrightarrow>
            script (fst (snd (doObjectQuery get c w))) = ?S \<and>
            requests (snd (snd (doObjectQuery get c w))) =
              requests w @ [\<lparr> req_url = baseURL c @ ''/'' @ preamble c,
                  req_params = [(''submit'', ''submit script''), (''script'', ?S)],
                  req_proxies = proxees c \<rparr>] \<and>
            (CHR 0x0A \<notin> set f \<and> CHR 0x0A \<notin> set os \<longrightarrow>
               split_on (CHR 0x0A) (script (fst (snd (doObjectQuery get c w)))) =
                 header_lines f @ split_on (CHR '','') os)"
  proof
    assume h: "ostring c = Some os \<and> os \<noteq> []"
    let ?c3 = "?c2\<lparr>elements := elements ?c2 @ [join nl (split_on (CHR '','') os)]\<rparr>"
    have d: "doObjectQuery get c w = send_script get ?c3 w"
      using eq h by simp
    have j: "join nl (elements ?c3) = ?S"
      using join_append_join[OF split_on_nonempty, of nl "header_lines f" "CHR '',''" os] by simp
    have sent: "script (fst (snd (doObjectQuery get c w))) = ?S \<and>
            requests (snd (snd (doObjectQuery get c w))) =
              requests w @ [\<lparr> req_url = baseURL c @ ''/'' @ preamble c,
                  req_params = [(''submit'', ''submit script''), (''script'', ?S)],
                  req_proxies = proxees c \<rparr>]"
      unfolding d using send_script_sends[of get ?c3 w] unfolding j by simp
    have lines: "CHR 0x0A \<notin> set f \<and> CHR 0x0A \<notin> set os \<longrightarrow>
               split_on (CHR 0x0A) (script (fst (snd (doObjectQuery get c w)))) =
                 header_lines f @ split_on (CHR '','') os"
    proof
      assume n: "CHR 0x0A \<notin> set f \<and> CHR 0x0A \<notin> set os"
      have "split_on (CHR 0x0A) ?S = header_lines f @ split_on (CHR '','') os"
        using n by (intro script_lines) simp_all
      then show "split_on (CHR 0x0A) (script (fst (snd (doObjectQuery get c w)))) =
                 header_lines f @ split_on (CHR '','') os"
        using sent by (simp only:)
    qed
    from sent lines show "script (fst (snd (doObjectQuery get c w))) = ?S \<and>
            requests (snd (snd (doObjectQuery get c w))) =
              requests w @ [\<lparr> req_url = baseURL c @ ''/'' @ preamble c,
                  req_params = [(''submit'', ''submit script''), (''script'', ?S)],
                  req_proxies = proxees c \<rparr>] \<and>
            (CHR 0x0A \<notin> set f \<and> CHR 0x0A \<notin> set os \<longrightarrow>
               split_on (CHR 0x0A) (script (fst (snd (doObjectQuery get c w)))) =
                 header_lines f @ split_on (CHR '','') os)"
      by blast
  qed
  have two: "ostring c = Some [] \<longrightarrow>
            fst (doObjectQuery get c w) = Some (IncorrectInputError None) \<and>
            snd (snd (doObjectQuery get c w)) = w"
    using eq by simp
  from one two example_names show ?thesis by blast
qed

lemma example_script:
  "join nl (header_lines ''%IDLIST(1)'' @ split_on (CHR '','') ''M31,M101,TW Hydrae'') =
     (''output console=off error=off script=off\<newline>format obj '' @ [CHR 0x22] @ ''%IDLIST(1)'' @
        [CHR 0x22] @ ''\<newline>result oid\<newline>echodata XXX\<newline>M31\<newline>M101\<newline>TW Hydrae'')"
  "header_lines ''%IDLIST(1)'' @ split_on (CHR '','') ''M31,M101,TW Hydrae'' =
     [''output console=off error=off script=off'',
        ''format obj '' @ [CHR 0x22] @ ''%IDLIST(1)'' @ [CHR 0x22],
        ''result oid'', ''echodata XXX'', ''M31'', ''M101'', ''TW Hydrae'']"
  by code_simp+

lemma script_param:
  "requests w = [] \<Longrightarrow>
   requests w' = requests w @ [\<lparr> req_url = u,
       req_params = [(''submit'', a), (''script'', S)], req_proxies = p \<rparr>] \<Longrightarrow>
   map (\<lambda>r. map_of (req_params r) ''script'') (requests w') = [Some S]"
  by simp

text \<open>
  The example of the module's \<open>__main__\<close> block: the text of the script, as stored
  and as sent, and its lines; and the empty string.
\<close>

theorem object_names_one_per_line_witness:
  "script (fst (snd (doObjectQuery (reply 200 [])
       ((init [] [] 0)\<lparr>ostring := Some ''M31,M101,TW Hydrae''\<rparr>) quiet))) =
     (''output console=off error=off script=off\<newline>format obj '' @ [CHR 0x22] @ ''%IDLIST(1)'' @
        [CHR 0x22] @ ''\<newline>result oid\<newline>echodata XXX\<newline>M31\<newline>M101\<newline>TW Hydrae'') \<and>
   map (\<lambda>r. map_of (req_params r) ''script'')
     (requests (snd (snd (doObjectQuery (reply 200 [])
       ((init [] [] 0)\<lparr>ostring := Some ''M31,M101,TW Hydrae''\<rparr>) quiet)))) =
     [Some (''output console=off error=off script=off\<newline>format obj '' @ [CHR 0x22] @ ''%IDLIST(1)'' @
        [CHR 0x22] @ ''\<newline>result oid\<newline>echodata XXX\<newline>M31\<newline>M101\<newline>TW Hydrae'')] \<and>
   split_on (CHR 0x0A) (script (fst (snd (doObjectQuery (reply 200 [])
       ((init [] [] 0)\<lparr>ostring := Some ''M31,M101,TW Hydrae''\<rparr>) quiet)))) =
     [''output console=off error=off script=off'',
        ''format obj '' @ [CHR 0x22] @ ''%IDLIST(1)'' @ [CHR 0x22],
        ''result oid'', ''echodata XXX'', ''M31'', ''M101'', ''TW Hydrae''] \<and>
   fst (doObjectQuery (reply 200 []) ((init [] [] 0)\<lparr>ostring := Some []\<rparr>) quiet) =
     Some (IncorrectInputError None) \<and>
   snd (snd (doObjectQuery (reply 200 []) ((init [] [] 0)\<lparr>ostring := Some []\<rparr>) quiet)) = quiet"
proof -
  let ?a = "(init [] [] 0)\<lparr>ostring := Some ''M31,M101,TW Hydrae''\<rparr>"
  let ?b = "(init [] [] 0)\<lparr>ostring := Some []\<rparr>"
  have fa: "map_of (qFormats ?a) ''objquery'' = Some ''%IDLIST(1)''" by (simp add: init_def)
  have fb: "map_of (qFormats ?b) ''objquery'' = Some ''%IDLIST(1)''" by (simp add: init_def)
  have oa: "ostring ?a = Some ''M31,M101,TW Hydrae'' \<and> ''M31,M101,TW Hydrae'' \<noteq> []" by simp
  have ob: "ostring ?b = Some []" by simp
  have nn: "CHR 0x0A \<notin> set ''%IDLIST(1)'' \<and> CHR 0x0A \<notin> set ''M31,M101,TW Hydrae''" by simp
  have q: "requests quiet = []" by (simp add: quiet_def)
  note ta = object_names_one_per_line[OF fa, of "''M31,M101,TW Hydrae''" "reply 200 []" quiet,
      THEN conjunct1, THEN mp, OF oa]
  note tb = object_names_one_per_line[OF fb, of "[]" "reply 200 []" quiet,
      THEN conjunct2, THEN conjunct1, THEN mp, OF ob]
  note s1 = ta[THEN conjunct1, unfolded example_script(1)]
  note s2 = script_param[OF q ta[THEN conjunct2, THEN conjunct1], unfolded example_script(1)]
  note s3 = ta[THEN conjunct2, THEN conjunct2, THEN mp, OF nn, unfolded example_script(2)]
  note s4 = tb[THEN conjunct1]
  note s5 = tb[THEN conjunct2]
  from s1 s2 s3 s4 s5 show ?thesis by (intro conjI)
qed

text \<open>Whatever the instance, a status other than 200 ends in \<open>TypeError\<close>.\<close>

lemma send_script_failure:
  assumes "status_code (get \<lparr> req_url = baseURL c @ ''/'' @ preamble c,
              req_params = [(''submit'', ''submit script''), (''script'', join nl (elements c))],
              req_proxies = proxees c \<rparr>) \<noteq> 200"
  shows "fst (send_script get c w) = Some TypeError"
  using assms by (simp add: send_script_def doQuery_def Let_def read_response_def)

text \<open>
  Claim C2 does not hold of the code. On the status 500, \<open>__doQuery\<close> writes its
  message to \<open>sys.stderr\<close> and returns \<open>None\<close>; the caller stores it in \<open>result\<close> and
  passes it to \<open>re.search\<close>, which raises \<open>TypeError\<close>.
\<close>

theorem failed_status_raises_TypeError:
  "fst failed_query = Some TypeError \<and>
   result (fst (snd failed_query)) = PyNone \<and>
   stderr (snd (snd failed_query)) = [''Error while querying SIMBAD. Aborting...'' @ nl] \<and>
   length (requests (snd (snd failed_query))) = 1"
  by code_simp

text \<open>
  Claim C6 does not hold of the code. Neither method assigns \<open>error\<close> before the
  response is read, and \<open>result\<close> is not cleared at the start: after a query that the
  server answered with an error, a second query on the same instance with a good
  answer still has the old error message and leaves the raw text in \<open>result\<close>; after a
  successful query, a query whose notation cannot be parsed still shows the old list.
\<close>

theorem error_and_result_survive_calls:
  "fst first_query = None \<and>
   error (fst (snd first_query)) = ''::error:: bad syntax'' \<and>
   fst second_query = None \<and>
   error (fst (snd second_query)) = ''::error:: bad syntax'' \<and>
   result (fst (snd second_query)) = PyStr example_reply \<and>
   result (fst (snd third_query)) = PyList [''2006070''] \<and>
   fst fourth_query = Some (IncorrectInputError (Some ''coordinate string could not be parsed'')) \<and>
   result (fst (snd fourth_query)) = PyList [''2006070'']"
  by code_simp

end
